theory Spec2Isabelle
  imports Main "HOL-Library.Signed_Division"
begin

section \<open>Coordinates\<close>

text \<open>
  Every class of the library is a template over the coordinate type \<open>T\<close>. The tests and the
  example program instantiate it at \<open>int\<close> only, and so does this development: \<open>T\<close> is the
  32-bit two's complement integer. A coordinate is a HOL integer between \<open>INT_MIN\<close> and
  \<open>INT_MAX\<close> (\<open>in_range\<close>). The source checks no operation for overflow, and the compiled
  program keeps the low 32 bits of a result that leaves the range; so each \<open>+\<close>, \<open>-\<close>, \<open>*\<close> and
  \<open>std::abs\<close> of the source is the operation on integers followed by \<open>wrap\<close>.
  Integer division in C++ truncates towards zero, which is \<open>sdiv\<close>.
\<close>

definition INT_MIN :: int where
  "INT_MIN = - 2147483648"

definition INT_MAX :: int where
  "INT_MAX = 2147483647"

definition in_range :: "int \<Rightarrow> bool" where
  "in_range v = (INT_MIN \<le> v \<and> v \<le> INT_MAX)"

definition wrap :: "int \<Rightarrow> int" where
  "wrap v = (v + 2147483648) mod 4294967296 - 2147483648"

section \<open>interval.hpp\<close>

text \<open>The private members \<open>lb_\<close> and \<open>ub_\<close>; the accessors \<open>lb()\<close> and \<open>ub()\<close> read them.\<close>

record Interval =
  lb :: int
  ub :: int

text \<open>The bounds of an interval of the program are values of \<open>int\<close>.\<close>

definition Interval_in_range :: "Interval \<Rightarrow> bool" where
  "Interval_in_range a = (in_range (lb a) \<and> in_range (ub a))"

text \<open>\<open>Interval()\<close>: the default constructor builds the invalid interval [1, 0].\<close>

definition Interval_default :: Interval where
  "Interval_default = \<lparr>lb = 1, ub = 0\<rparr>"

definition Interval_is_invalid :: "Interval \<Rightarrow> bool" where
  "Interval_is_invalid a = (lb a > ub a)"

definition Interval_is_valid :: "Interval \<Rightarrow> bool" where
  "Interval_is_valid a = (lb a \<le> ub a)"

definition Interval_width :: "Interval \<Rightarrow> int" where
  "Interval_width a = wrap (ub a - lb a)"

definition Interval_is_empty :: "Interval \<Rightarrow> bool" where
  "Interval_is_empty a = (lb a = ub a)"

definition Interval_overlaps :: "Interval \<Rightarrow> Interval \<Rightarrow> bool" where
  "Interval_overlaps a other = (lb a \<le> ub other \<and> lb other \<le> ub a)"

definition Interval_overlaps_value :: "Interval \<Rightarrow> int \<Rightarrow> bool" where
  "Interval_overlaps_value a v = (lb a \<le> v \<and> v \<le> ub a)"

definition Interval_contains :: "Interval \<Rightarrow> Interval \<Rightarrow> bool" where
  "Interval_contains a other = (lb a \<le> lb other \<and> ub other \<le> ub a)"

definition Interval_contains_value :: "Interval \<Rightarrow> int \<Rightarrow> bool" where
  "Interval_contains_value a v = (lb a \<le> v \<and> v \<le> ub a)"

definition Interval_intersect_with :: "Interval \<Rightarrow> Interval \<Rightarrow> Interval" where
  "Interval_intersect_with a other =
     (if Interval_overlaps a other
      then \<lparr>lb = max (lb a) (lb other), ub = min (ub a) (ub other)\<rparr>
      else Interval_default)"

definition Interval_min_dist_with :: "Interval \<Rightarrow> Interval \<Rightarrow> int" where
  "Interval_min_dist_with a other =
     (if Interval_overlaps a other then 0
      else if ub a < lb other then wrap (lb other - ub a)
      else wrap (lb a - ub other))"

definition Interval_min_dist_with_value :: "Interval \<Rightarrow> int \<Rightarrow> int" where
  "Interval_min_dist_with_value a v =
     (if Interval_contains_value a v then 0
      else if v < lb a then wrap (lb a - v)
      else wrap (v - ub a))"

definition Interval_get_center :: "Interval \<Rightarrow> int" where
  "Interval_get_center a = wrap (lb a + ub a) sdiv 2"

definition Interval_measure :: "Interval \<Rightarrow> int" where
  "Interval_measure a = Interval_width a"

definition Interval_lower_corner :: "Interval \<Rightarrow> int" where
  "Interval_lower_corner a = lb a"

definition Interval_upper_corner :: "Interval \<Rightarrow> int" where
  "Interval_upper_corner a = ub a"

definition Interval_hull_with :: "Interval \<Rightarrow> Interval \<Rightarrow> Interval" where
  "Interval_hull_with a other = \<lparr>lb = min (lb a) (lb other), ub = max (ub a) (ub other)\<rparr>"

definition Interval_hull_with_value :: "Interval \<Rightarrow> int \<Rightarrow> Interval" where
  "Interval_hull_with_value a v = \<lparr>lb = min (lb a) v, ub = max (ub a) v\<rparr>"

definition Interval_enlarge :: "Interval \<Rightarrow> int \<Rightarrow> Interval" where
  "Interval_enlarge a amount = \<lparr>lb = wrap (lb a - amount), ub = wrap (ub a + amount)\<rparr>"

text \<open>\<open>operator==\<close> compares both bounds; on the record it is HOL equality.\<close>

definition Interval_eq :: "Interval \<Rightarrow> Interval \<Rightarrow> bool" where
  "Interval_eq a other = (lb a = lb other \<and> ub a = ub other)"

section \<open>vector2.hpp\<close>

record Vector2 =
  Vector2_x :: int
  Vector2_y :: int

section \<open>point.hpp\<close>

record Point =
  Point_x :: int
  Point_y :: int

definition Point_width :: "Point \<Rightarrow> int" where
  "Point_width p = 1"

definition Point_height :: "Point \<Rightarrow> int" where
  "Point_height p = 1"

definition Point_area :: "Point \<Rightarrow> int" where
  "Point_area p = 1"

definition Point_overlaps :: "Point \<Rightarrow> Point \<Rightarrow> bool" where
  "Point_overlaps p other = (Point_x p = Point_x other \<and> Point_y p = Point_y other)"

definition Point_contains :: "Point \<Rightarrow> Point \<Rightarrow> bool" where
  "Point_contains p other = Point_overlaps p other"

definition Point_contains_value :: "Point \<Rightarrow> int \<Rightarrow> bool" where
  "Point_contains_value p v = (Point_x p = v \<and> Point_y p = v)"

definition Point_min_dist_with :: "Point \<Rightarrow> Point \<Rightarrow> int" where
  "Point_min_dist_with p other =
     wrap (wrap \<bar>wrap (Point_x p - Point_x other)\<bar> + wrap \<bar>wrap (Point_y p - Point_y other)\<bar>)"

definition Point_get_center :: "Point \<Rightarrow> Point" where
  "Point_get_center p = p"

definition Point_measure :: "Point \<Rightarrow> int" where
  "Point_measure p = Point_area p"

definition Point_lower_corner :: "Point \<Rightarrow> Point" where
  "Point_lower_corner p = p"

definition Point_upper_corner :: "Point \<Rightarrow> Point" where
  "Point_upper_corner p = p"

definition Point_hull_with :: "Point \<Rightarrow> Point \<Rightarrow> Interval \<times> Interval" where
  "Point_hull_with p other =
     (\<lparr>lb = min (Point_x p) (Point_x other), ub = max (Point_x p) (Point_x other)\<rparr>,
      \<lparr>lb = min (Point_y p) (Point_y other), ub = max (Point_y p) (Point_y other)\<rparr>)"

definition Point_enlarge :: "Point \<Rightarrow> int \<Rightarrow> Interval \<times> Interval" where
  "Point_enlarge p amount =
     (\<lparr>lb = wrap (Point_x p - amount), ub = wrap (Point_x p + amount)\<rparr>,
      \<lparr>lb = wrap (Point_y p - amount), ub = wrap (Point_y p + amount)\<rparr>)"

definition Point_eq :: "Point \<Rightarrow> Point \<Rightarrow> bool" where
  "Point_eq p other = (Point_x p = Point_x other \<and> Point_y p = Point_y other)"

text \<open>
  The two member templates \<open>operator+(const Point<U>&)\<close> and \<open>operator-(const Point<U>&)\<close>
  and the member \<open>operator-(const Point&)\<close>. The parameter the documentation calls a vector
  has the type \<open>Point<U>\<close>; \<open>U\<close> is \<open>int\<close> here.
\<close>

definition Point_plus :: "Point \<Rightarrow> Point \<Rightarrow> Point" where
  "Point_plus p vec =
     \<lparr>Point_x = wrap (Point_x p + Point_x vec), Point_y = wrap (Point_y p + Point_y vec)\<rparr>"

definition Point_minus_vec :: "Point \<Rightarrow> Point \<Rightarrow> Point" where
  "Point_minus_vec p vec =
     \<lparr>Point_x = wrap (Point_x p - Point_x vec), Point_y = wrap (Point_y p - Point_y vec)\<rparr>"

definition Point_minus :: "Point \<Rightarrow> Point \<Rightarrow> Point" where
  "Point_minus p other =
     \<lparr>Point_x = wrap (Point_x p - Point_x other), Point_y = wrap (Point_y p - Point_y other)\<rparr>"

text \<open>
  \<open>nearest_point_to\<close> returns a pointer into the vector of candidates, or \<open>nullptr\<close>. The
  pointer \<open>&candidates[i]\<close> is modelled by the index \<open>i\<close>, \<open>nullptr\<close> by \<open>None\<close>. The
  \<open>for\<close> loop is \<open>nearest_loop\<close>: its state is the counter \<open>i\<close>, \<open>min_dist\<close> and \<open>nearest\<close>.
\<close>

function nearest_loop :: "Point \<Rightarrow> Point list \<Rightarrow> nat \<Rightarrow> int \<Rightarrow> nat \<Rightarrow> nat" where
  "nearest_loop point candidates i min_dist nearest =
     (if i < length candidates then
        (let dist = Point_min_dist_with point (candidates ! i) in
         if dist < min_dist then nearest_loop point candidates (i + 1) dist i
         else nearest_loop point candidates (i + 1) min_dist nearest)
      else nearest)"
  by pat_completeness auto
termination
  by (relation "measure (\<lambda>(point, candidates, i, min_dist, nearest). length candidates - i)") auto

declare nearest_loop.simps [simp del]

definition nearest_point_to :: "Point \<Rightarrow> Point list \<Rightarrow> nat option" where
  "nearest_point_to point candidates =
     (if candidates = [] then None
      else Some (nearest_loop point candidates 1
                   (Point_min_dist_with point (candidates ! 0)) 0))"

text \<open>Dereferencing the returned pointer.\<close>

definition deref :: "Point list \<Rightarrow> nat option \<Rightarrow> Point option" where
  "deref candidates ptr = (case ptr of None \<Rightarrow> None | Some i \<Rightarrow> Some (candidates ! i))"

section \<open>recti.hpp\<close>

record Rectangle =
  x_interval :: Interval
  y_interval :: Interval

definition Rectangle_default :: Rectangle where
  "Rectangle_default = \<lparr>x_interval = \<lparr>lb = 1, ub = 0\<rparr>, y_interval = \<lparr>lb = 1, ub = 0\<rparr>\<rparr>"

definition Rectangle_in_range :: "Rectangle \<Rightarrow> bool" where
  "Rectangle_in_range r = (Interval_in_range (x_interval r) \<and> Interval_in_range (y_interval r))"

definition Rectangle_ll :: "Rectangle \<Rightarrow> Point" where
  "Rectangle_ll r = \<lparr>Point_x = lb (x_interval r), Point_y = lb (y_interval r)\<rparr>"

definition Rectangle_ur :: "Rectangle \<Rightarrow> Point" where
  "Rectangle_ur r = \<lparr>Point_x = ub (x_interval r), Point_y = ub (y_interval r)\<rparr>"

definition Rectangle_width :: "Rectangle \<Rightarrow> int" where
  "Rectangle_width r = Interval_width (x_interval r)"

definition Rectangle_height :: "Rectangle \<Rightarrow> int" where
  "Rectangle_height r = Interval_width (y_interval r)"

definition Rectangle_area :: "Rectangle \<Rightarrow> int" where
  "Rectangle_area r = wrap (Rectangle_width r * Rectangle_height r)"

definition Rectangle_flip :: "Rectangle \<Rightarrow> Rectangle" where
  "Rectangle_flip r = \<lparr>x_interval = y_interval r, y_interval = x_interval r\<rparr>"

definition Rectangle_overlaps :: "Rectangle \<Rightarrow> Rectangle \<Rightarrow> bool" where
  "Rectangle_overlaps r other =
     (Interval_overlaps (x_interval r) (x_interval other) \<and>
      Interval_overlaps (y_interval r) (y_interval other))"

definition Rectangle_contains :: "Rectangle \<Rightarrow> Rectangle \<Rightarrow> bool" where
  "Rectangle_contains r other =
     (Interval_contains (x_interval r) (x_interval other) \<and>
      Interval_contains (y_interval r) (y_interval other))"

definition Rectangle_contains_point :: "Rectangle \<Rightarrow> Point \<Rightarrow> bool" where
  "Rectangle_contains_point r point =
     (Interval_contains_value (x_interval r) (Point_x point) \<and>
      Interval_contains_value (y_interval r) (Point_y point))"

definition Rectangle_min_dist_with :: "Rectangle \<Rightarrow> Rectangle \<Rightarrow> int" where
  "Rectangle_min_dist_with r other =
     wrap (Interval_min_dist_with (x_interval r) (x_interval other) +
           Interval_min_dist_with (y_interval r) (y_interval other))"

definition Rectangle_min_dist_with_point :: "Rectangle \<Rightarrow> Point \<Rightarrow> int" where
  "Rectangle_min_dist_with_point r point =
     wrap (Interval_min_dist_with_value (x_interval r) (Point_x point) +
           Interval_min_dist_with_value (y_interval r) (Point_y point))"

definition Rectangle_get_center :: "Rectangle \<Rightarrow> Point" where
  "Rectangle_get_center r =
     \<lparr>Point_x = Interval_get_center (x_interval r), Point_y = Interval_get_center (y_interval r)\<rparr>"

definition Rectangle_measure :: "Rectangle \<Rightarrow> int" where
  "Rectangle_measure r = Rectangle_area r"

definition Rectangle_lower_corner :: "Rectangle \<Rightarrow> Point" where
  "Rectangle_lower_corner r = Rectangle_ll r"

definition Rectangle_upper_corner :: "Rectangle \<Rightarrow> Point" where
  "Rectangle_upper_corner r = Rectangle_ur r"

record VSegment =
  VSegment_x :: int
  VSegment_y_interval :: Interval

record HSegment =
  HSegment_x_interval :: Interval
  HSegment_y :: int

definition VSegment_flip :: "VSegment \<Rightarrow> HSegment" where
  "VSegment_flip s = \<lparr>HSegment_x_interval = VSegment_y_interval s, HSegment_y = VSegment_x s\<rparr>"

definition VSegment_overlaps :: "VSegment \<Rightarrow> VSegment \<Rightarrow> bool" where
  "VSegment_overlaps s other =
     (VSegment_x s = VSegment_x other \<and>
      Interval_overlaps (VSegment_y_interval s) (VSegment_y_interval other))"

definition VSegment_contains :: "VSegment \<Rightarrow> VSegment \<Rightarrow> bool" where
  "VSegment_contains s other =
     (VSegment_x s = VSegment_x other \<and>
      Interval_contains (VSegment_y_interval s) (VSegment_y_interval other))"

definition VSegment_contains_point :: "VSegment \<Rightarrow> Point \<Rightarrow> bool" where
  "VSegment_contains_point s point =
     (VSegment_x s = Point_x point \<and>
      Interval_contains_value (VSegment_y_interval s) (Point_y point))"

definition VSegment_eq :: "VSegment \<Rightarrow> VSegment \<Rightarrow> bool" where
  "VSegment_eq s other =
     (VSegment_x s = VSegment_x other \<and>
      Interval_eq (VSegment_y_interval s) (VSegment_y_interval other))"

definition HSegment_flip :: "HSegment \<Rightarrow> VSegment" where
  "HSegment_flip h = \<lparr>VSegment_x = HSegment_y h, VSegment_y_interval = HSegment_x_interval h\<rparr>"

definition HSegment_overlaps :: "HSegment \<Rightarrow> HSegment \<Rightarrow> bool" where
  "HSegment_overlaps h other =
     (HSegment_y h = HSegment_y other \<and>
      Interval_overlaps (HSegment_x_interval h) (HSegment_x_interval other))"

definition HSegment_contains :: "HSegment \<Rightarrow> HSegment \<Rightarrow> bool" where
  "HSegment_contains h other =
     (HSegment_y h = HSegment_y other \<and>
      Interval_contains (HSegment_x_interval h) (HSegment_x_interval other))"

definition HSegment_contains_point :: "HSegment \<Rightarrow> Point \<Rightarrow> bool" where
  "HSegment_contains_point h point =
     (HSegment_y h = Point_y point \<and>
      Interval_contains_value (HSegment_x_interval h) (Point_x point))"

definition HSegment_eq :: "HSegment \<Rightarrow> HSegment \<Rightarrow> bool" where
  "HSegment_eq h other =
     (Interval_eq (HSegment_x_interval h) (HSegment_x_interval other) \<and>
      HSegment_y h = HSegment_y other)"

section \<open>Overload resolution\<close>

text \<open>
  The classes share no base class: a call \<open>a.overlaps(b)\<close> compiles only when the class of
  \<open>a\<close> declares a member \<open>overlaps\<close> that accepts the type of \<open>b\<close>. To speak about such
  calls for operands of any type, \<open>operand\<close> collects the values of the library, and each
  function below is the set of overloads the classes declare under one name: which member a
  pair of operand types selects, and \<open>None\<close> where no class declares a member for them (the
  call is ill-formed and the program is rejected by the compiler).
\<close>

datatype operand =
    Scalar int
  | OInterval Interval
  | OPoint Point
  | OVector2 Vector2
  | ORectangle Rectangle
  | OVSegment VSegment
  | OHSegment HSegment

fun overlaps :: "operand \<Rightarrow> operand \<Rightarrow> bool option" where
  "overlaps (OInterval a) (OInterval b) = Some (Interval_overlaps a b)"
| "overlaps (OInterval a) (Scalar v) = Some (Interval_overlaps_value a v)"
| "overlaps (OPoint p) (OPoint q) = Some (Point_overlaps p q)"
| "overlaps (ORectangle r) (ORectangle s) = Some (Rectangle_overlaps r s)"
| "overlaps (OVSegment s) (OVSegment t) = Some (VSegment_overlaps s t)"
| "overlaps (OHSegment h) (OHSegment k) = Some (HSegment_overlaps h k)"
| "overlaps _ _ = None"

fun contains :: "operand \<Rightarrow> operand \<Rightarrow> bool option" where
  "contains (OInterval a) (OInterval b) = Some (Interval_contains a b)"
| "contains (OInterval a) (Scalar v) = Some (Interval_contains_value a v)"
| "contains (OPoint p) (OPoint q) = Some (Point_contains p q)"
| "contains (OPoint p) (Scalar v) = Some (Point_contains_value p v)"
| "contains (ORectangle r) (ORectangle s) = Some (Rectangle_contains r s)"
| "contains (ORectangle r) (OPoint p) = Some (Rectangle_contains_point r p)"
| "contains (OVSegment s) (OVSegment t) = Some (VSegment_contains s t)"
| "contains (OVSegment s) (OPoint p) = Some (VSegment_contains_point s p)"
| "contains (OHSegment h) (OHSegment k) = Some (HSegment_contains h k)"
| "contains (OHSegment h) (OPoint p) = Some (HSegment_contains_point h p)"
| "contains _ _ = None"

fun min_dist_with :: "operand \<Rightarrow> operand \<Rightarrow> int option" where
  "min_dist_with (OInterval a) (OInterval b) = Some (Interval_min_dist_with a b)"
| "min_dist_with (OInterval a) (Scalar v) = Some (Interval_min_dist_with_value a v)"
| "min_dist_with (OPoint p) (OPoint q) = Some (Point_min_dist_with p q)"
| "min_dist_with (ORectangle r) (ORectangle s) = Some (Rectangle_min_dist_with r s)"
| "min_dist_with (ORectangle r) (OPoint p) = Some (Rectangle_min_dist_with_point r p)"
| "min_dist_with _ _ = None"

fun get_center :: "operand \<Rightarrow> operand option" where
  "get_center (OInterval a) = Some (Scalar (Interval_get_center a))"
| "get_center (OPoint p) = Some (OPoint (Point_get_center p))"
| "get_center (ORectangle r) = Some (OPoint (Rectangle_get_center r))"
| "get_center _ = None"

text \<open>The member \<open>measure()\<close>; the name \<open>measure\<close> is taken in HOL.\<close>

fun measure_member :: "operand \<Rightarrow> int option" where
  "measure_member (OInterval a) = Some (Interval_measure a)"
| "measure_member (OPoint p) = Some (Point_measure p)"
| "measure_member (ORectangle r) = Some (Rectangle_measure r)"
| "measure_member _ = None"

fun lower_corner :: "operand \<Rightarrow> operand option" where
  "lower_corner (OInterval a) = Some (Scalar (Interval_lower_corner a))"
| "lower_corner (OPoint p) = Some (OPoint (Point_lower_corner p))"
| "lower_corner (ORectangle r) = Some (OPoint (Rectangle_lower_corner r))"
| "lower_corner _ = None"

fun upper_corner :: "operand \<Rightarrow> operand option" where
  "upper_corner (OInterval a) = Some (Scalar (Interval_upper_corner a))"
| "upper_corner (OPoint p) = Some (OPoint (Point_upper_corner p))"
| "upper_corner (ORectangle r) = Some (OPoint (Rectangle_upper_corner r))"
| "upper_corner _ = None"

text \<open>
  \<open>p + b\<close> and \<open>p - b\<close> for a point \<open>p\<close>. The candidates are the members of \<open>Point\<close> only (the
  namespace declares no free \<open>operator+\<close> or \<open>operator-\<close>). For \<open>b\<close> a point, \<open>p - b\<close> selects
  the non-template member over the member template. For any other \<open>b\<close> the deduction of
  \<open>Point<U>\<close> fails and no conversion to \<open>Point\<close> exists.
\<close>

fun Point_operator_plus :: "Point \<Rightarrow> operand \<Rightarrow> Point option" where
  "Point_operator_plus p (OPoint vec) = Some (Point_plus p vec)"
| "Point_operator_plus p _ = None"

fun Point_operator_minus :: "Point \<Rightarrow> operand \<Rightarrow> Point option" where
  "Point_operator_minus p (OPoint other) = Some (Point_minus p other)"
| "Point_operator_minus p _ = None"

section \<open>generic.hpp\<close>

text \<open>
  Modelled from the spec: the header \<open>recti/generic.hpp\<close>, which \<open>recti.hpp\<close> and
  \<open>interval.hpp\<close> include and whose free functions the tests call, is not among the sources.
  The spec (4.6) gives each free function as the call of one member on its first argument:
  \<open>overlap(a,b)\<close> is \<open>a.overlaps(b)\<close>.
\<close>

definition overlap :: "operand \<Rightarrow> operand \<Rightarrow> bool option" where
  "overlap a b = overlaps a b"

text \<open>Modelled from the spec: \<open>contain(a,b)\<close> of the missing \<open>generic.hpp\<close> is \<open>a.contains(b)\<close>.\<close>

definition contain :: "operand \<Rightarrow> operand \<Rightarrow> bool option" where
  "contain a b = contains a b"

text \<open>Modelled from the spec: \<open>min_dist(a,b)\<close> of the missing \<open>generic.hpp\<close> is \<open>a.min_dist_with(b)\<close>.\<close>

definition min_dist :: "operand \<Rightarrow> operand \<Rightarrow> int option" where
  "min_dist a b = min_dist_with a b"

text \<open>Modelled from the spec: \<open>center(a)\<close> of the missing \<open>generic.hpp\<close> is \<open>a.get_center()\<close>.\<close>

definition center :: "operand \<Rightarrow> operand option" where
  "center a = get_center a"

text \<open>Modelled from the spec: \<open>measure_of(a)\<close> of the missing \<open>generic.hpp\<close> is \<open>a.measure()\<close>.\<close>

definition measure_of :: "operand \<Rightarrow> int option" where
  "measure_of a = measure_member a"

text \<open>Modelled from the spec: \<open>lower(a)\<close> of the missing \<open>generic.hpp\<close> is \<open>a.lower_corner()\<close>.\<close>

definition lower :: "operand \<Rightarrow> operand option" where
  "lower a = lower_corner a"

text \<open>Modelled from the spec: \<open>upper(a)\<close> of the missing \<open>generic.hpp\<close> is \<open>a.upper_corner()\<close>.\<close>

definition upper :: "operand \<Rightarrow> operand option" where
  "upper a = upper_corner a"

section \<open>Arithmetic of int\<close>

lemma wrap_id: "in_range v \<Longrightarrow> wrap v = v"
  by (simp add: in_range_def INT_MIN_def INT_MAX_def wrap_def)

lemma in_range_wrap: "in_range (wrap v)"
proof -
  have "0 \<le> (v + 2147483648) mod 4294967296" and "(v + 2147483648) mod 4294967296 < 4294967296"
    by simp_all
  then show ?thesis
    unfolding in_range_def INT_MIN_def INT_MAX_def wrap_def by linarith
qed

lemma wrap_high: "2147483648 \<le> v \<Longrightarrow> v \<le> 4294967295 \<Longrightarrow> wrap v = v - 4294967296"
proof -
  assume a: "2147483648 \<le> v" "v \<le> 4294967295"
  have "v + 2147483648 = (v - 2147483648) + 4294967296"
    by simp
  then have "(v + 2147483648) mod 4294967296 = ((v - 2147483648) + 4294967296) mod 4294967296"
    by (rule arg_cong)
  also have "\<dots> = (v - 2147483648) mod 4294967296"
    by (rule mod_add_self2)
  also have "\<dots> = v - 2147483648"
    using a by (intro mod_pos_pos_trivial) simp_all
  finally show ?thesis by (simp add: wrap_def)
qed

lemma wrap_pos_nonzero: "0 < v \<Longrightarrow> v \<le> 4294967295 \<Longrightarrow> wrap v \<noteq> 0"
proof (cases "v \<le> 2147483647")
  case True
  assume "0 < v"
  with True have "wrap v = v"
    by (intro wrap_id) (simp add: in_range_def INT_MIN_def INT_MAX_def)
  with \<open>0 < v\<close> show ?thesis by simp
next
  case False
  assume "v \<le> 4294967295"
  with False have "wrap v = v - 4294967296" by (intro wrap_high) simp_all
  with \<open>v \<le> 4294967295\<close> show ?thesis by simp
qed

lemma in_range_diff_le: "in_range x \<Longrightarrow> in_range y \<Longrightarrow> x - y \<le> 4294967295"
  by (simp add: in_range_def INT_MIN_def INT_MAX_def)

section \<open>Equality operators\<close>

text \<open>Each \<open>operator==\<close> compares all members, so it decides equality of the values.\<close>

lemma Interval_eq_iff: "Interval_eq a b \<longleftrightarrow> a = b"
  by (cases a, cases b) (simp add: Interval_eq_def)

lemma VSegment_eq_iff: "VSegment_eq s t \<longleftrightarrow> s = t"
  by (cases s, cases t) (simp add: VSegment_eq_def Interval_eq_iff)

lemma HSegment_eq_iff: "HSegment_eq h k \<longleftrightarrow> h = k"
  by (cases h, cases k) (simp add: HSegment_eq_def Interval_eq_iff)

section \<open>Distances\<close>

text \<open>
  The distance of two intervals that do not overlap is a difference of two values of \<open>int\<close>
  between 1 and 4294967295; whatever it wraps to, it is not 0.
\<close>

lemma Interval_min_dist_with_zero_iff:
  assumes "Interval_in_range a" and "Interval_in_range b"
  shows "Interval_min_dist_with a b = 0 \<longleftrightarrow> Interval_overlaps a b"
proof (cases "Interval_overlaps a b")
  case True
  then show ?thesis by (simp add: Interval_min_dist_with_def)
next
  case False
  show ?thesis
  proof (cases "ub a < lb b")
    case True
    then have pos: "0 < lb b - ub a" by simp
    have "lb b - ub a \<le> 4294967295"
      using assms by (intro in_range_diff_le) (simp_all add: Interval_in_range_def)
    with pos have "wrap (lb b - ub a) \<noteq> 0" by (rule wrap_pos_nonzero)
    with False True show ?thesis by (simp add: Interval_min_dist_with_def)
  next
    case nb: False
    with False have pos: "0 < lb a - ub b" by (simp add: Interval_overlaps_def)
    have "lb a - ub b \<le> 4294967295"
      using assms by (intro in_range_diff_le) (simp_all add: Interval_in_range_def)
    with pos have "wrap (lb a - ub b) \<noteq> 0" by (rule wrap_pos_nonzero)
    with False nb show ?thesis by (simp add: Interval_min_dist_with_def)
  qed
qed

text \<open>Where neither difference of endpoints exceeds \<open>INT_MAX\<close>, the distance is exact.\<close>

lemma Interval_min_dist_with_exact:
  assumes "lb b - ub a \<le> INT_MAX" and "lb a - ub b \<le> INT_MAX"
  shows "Interval_min_dist_with a b =
           (if Interval_overlaps a b then 0
            else if ub a < lb b then lb b - ub a else lb a - ub b)"
proof -
  have 1: "wrap (lb b - ub a) = lb b - ub a" if "ub a < lb b"
    using that assms(1) by (intro wrap_id) (simp add: in_range_def INT_MIN_def)
  have 2: "wrap (lb a - ub b) = lb a - ub b" if "\<not> Interval_overlaps a b" and "\<not> ub a < lb b"
    using that assms(2)
    by (intro wrap_id) (simp add: in_range_def INT_MIN_def Interval_overlaps_def)
  show ?thesis
    by (simp add: Interval_min_dist_with_def 1 2)
qed

lemma Interval_min_dist_with_nonneg:
  assumes "lb b - ub a \<le> INT_MAX" and "lb a - ub b \<le> INT_MAX"
  shows "0 \<le> Interval_min_dist_with a b"
  unfolding Interval_min_dist_with_exact [OF assms]
  by (simp add: Interval_overlaps_def)

text \<open>
  C2, where the arithmetic stays in range. For all intervals with bounds in \<open>int\<close>, valid or
  not, the distance is zero exactly when they overlap; and when neither difference of
  endpoints exceeds \<open>INT_MAX\<close> it is not negative. For all rectangles for which, on both
  axes, neither difference of endpoints exceeds \<open>INT_MAX\<close> and the sum of the two axis
  distances does not exceed \<open>INT_MAX\<close>, the distance is not negative and is zero exactly
  when the rectangles overlap.
\<close>

theorem C2_min_dist_without_overflow:
  assumes "Interval_in_range a" and "Interval_in_range b"
    and "Rectangle_in_range r" and "Rectangle_in_range s"
  shows
  "(Interval_min_dist_with a b = 0 \<longleftrightarrow> Interval_overlaps a b) \<and>
   (lb b - ub a \<le> INT_MAX \<and> lb a - ub b \<le> INT_MAX \<longrightarrow> 0 \<le> Interval_min_dist_with a b) \<and>
   (lb (x_interval s) - ub (x_interval r) \<le> INT_MAX \<and>
    lb (x_interval r) - ub (x_interval s) \<le> INT_MAX \<and>
    lb (y_interval s) - ub (y_interval r) \<le> INT_MAX \<and>
    lb (y_interval r) - ub (y_interval s) \<le> INT_MAX \<and>
    Interval_min_dist_with (x_interval r) (x_interval s) +
      Interval_min_dist_with (y_interval r) (y_interval s) \<le> INT_MAX \<longrightarrow>
      0 \<le> Rectangle_min_dist_with r s \<and>
      (Rectangle_min_dist_with r s = 0 \<longleftrightarrow> Rectangle_overlaps r s))"
proof (intro conjI impI)
  show "Interval_min_dist_with a b = 0 \<longleftrightarrow> Interval_overlaps a b"
    using assms(1,2) by (rule Interval_min_dist_with_zero_iff)
next
  assume "lb b - ub a \<le> INT_MAX \<and> lb a - ub b \<le> INT_MAX"
  then show "0 \<le> Interval_min_dist_with a b"
    by (intro Interval_min_dist_with_nonneg) simp_all
next
  assume h: "lb (x_interval s) - ub (x_interval r) \<le> INT_MAX \<and>
    lb (x_interval r) - ub (x_interval s) \<le> INT_MAX \<and>
    lb (y_interval s) - ub (y_interval r) \<le> INT_MAX \<and>
    lb (y_interval r) - ub (y_interval s) \<le> INT_MAX \<and>
    Interval_min_dist_with (x_interval r) (x_interval s) +
      Interval_min_dist_with (y_interval r) (y_interval s) \<le> INT_MAX"
  let ?dx = "Interval_min_dist_with (x_interval r) (x_interval s)"
  let ?dy = "Interval_min_dist_with (y_interval r) (y_interval s)"
  have x0: "0 \<le> ?dx" using h by (intro Interval_min_dist_with_nonneg) simp_all
  have y0: "0 \<le> ?dy" using h by (intro Interval_min_dist_with_nonneg) simp_all
  have "in_range (?dx + ?dy)"
    using h x0 y0 by (simp add: in_range_def INT_MIN_def)
  then have sum: "Rectangle_min_dist_with r s = ?dx + ?dy"
    by (simp add: Rectangle_min_dist_with_def wrap_id)
  have xr: "Interval_in_range (x_interval r)" "Interval_in_range (x_interval s)"
    and yr: "Interval_in_range (y_interval r)" "Interval_in_range (y_interval s)"
    using assms(3,4) by (simp_all add: Rectangle_in_range_def)
  have zero: "?dx + ?dy = 0 \<longleftrightarrow> ?dx = 0 \<and> ?dy = 0"
    using x0 y0 by linarith
  show "0 \<le> Rectangle_min_dist_with r s"
    unfolding sum using x0 y0 by simp
  show "Rectangle_min_dist_with r s = 0 \<longleftrightarrow> Rectangle_overlaps r s"
    unfolding sum zero
    by (simp add: Interval_min_dist_with_zero_iff [OF xr] Interval_min_dist_with_zero_iff [OF yr]
        Rectangle_overlaps_def)
qed

theorem C2_min_dist_without_overflow_witness:
  "Interval_in_range \<lparr>lb = 1, ub = 5\<rparr> \<and> Interval_in_range \<lparr>lb = 10, ub = 15\<rparr> \<and>
   Rectangle_in_range \<lparr>x_interval = \<lparr>lb = 1, ub = 5\<rparr>, y_interval = \<lparr>lb = 2, ub = 6\<rparr>\<rparr> \<and>
   Rectangle_in_range \<lparr>x_interval = \<lparr>lb = 10, ub = 15\<rparr>, y_interval = \<lparr>lb = 10, ub = 15\<rparr>\<rparr> \<and>
   \<not> Interval_overlaps \<lparr>lb = 1, ub = 5\<rparr> \<lparr>lb = 10, ub = 15\<rparr> \<and>
   Interval_min_dist_with \<lparr>lb = 1, ub = 5\<rparr> \<lparr>lb = 10, ub = 15\<rparr> \<noteq> 0 \<and>
   0 \<le> Interval_min_dist_with \<lparr>lb = 1, ub = 5\<rparr> \<lparr>lb = 10, ub = 15\<rparr> \<and>
   0 \<le> Rectangle_min_dist_with
         \<lparr>x_interval = \<lparr>lb = 1, ub = 5\<rparr>, y_interval = \<lparr>lb = 2, ub = 6\<rparr>\<rparr>
         \<lparr>x_interval = \<lparr>lb = 10, ub = 15\<rparr>, y_interval = \<lparr>lb = 10, ub = 15\<rparr>\<rparr> \<and>
   \<not> Rectangle_overlaps
         \<lparr>x_interval = \<lparr>lb = 1, ub = 5\<rparr>, y_interval = \<lparr>lb = 2, ub = 6\<rparr>\<rparr>
         \<lparr>x_interval = \<lparr>lb = 10, ub = 15\<rparr>, y_interval = \<lparr>lb = 10, ub = 15\<rparr>\<rparr> \<and>
   Rectangle_min_dist_with
         \<lparr>x_interval = \<lparr>lb = 1, ub = 5\<rparr>, y_interval = \<lparr>lb = 2, ub = 6\<rparr>\<rparr>
         \<lparr>x_interval = \<lparr>lb = 10, ub = 15\<rparr>, y_interval = \<lparr>lb = 10, ub = 15\<rparr>\<rparr> \<noteq> 0"
proof -
  let ?a = "\<lparr>lb = 1, ub = 5\<rparr>" and ?b = "\<lparr>lb = 10, ub = 15\<rparr>"
  let ?r = "\<lparr>x_interval = \<lparr>lb = 1, ub = 5\<rparr>, y_interval = \<lparr>lb = 2, ub = 6\<rparr>\<rparr>"
  let ?s = "\<lparr>x_interval = \<lparr>lb = 10, ub = 15\<rparr>, y_interval = \<lparr>lb = 10, ub = 15\<rparr>\<rparr>"
  have ra: "Interval_in_range ?a" and rb: "Interval_in_range ?b"
    by (simp_all add: Interval_in_range_def in_range_def INT_MIN_def INT_MAX_def)
  have rr: "Rectangle_in_range ?r" and rs: "Rectangle_in_range ?s"
    by (simp_all add: Rectangle_in_range_def Interval_in_range_def in_range_def
        INT_MIN_def INT_MAX_def)
  have no: "\<not> Interval_overlaps ?a ?b"
    by (simp add: Interval_overlaps_def)
  have nr: "\<not> Rectangle_overlaps ?r ?s"
    by (simp add: Rectangle_overlaps_def Interval_overlaps_def)
  have fits: "lb ?b - ub ?a \<le> INT_MAX \<and> lb ?a - ub ?b \<le> INT_MAX"
    by (simp add: INT_MAX_def)
  have rfits: "lb (x_interval ?s) - ub (x_interval ?r) \<le> INT_MAX \<and>
    lb (x_interval ?r) - ub (x_interval ?s) \<le> INT_MAX \<and>
    lb (y_interval ?s) - ub (y_interval ?r) \<le> INT_MAX \<and>
    lb (y_interval ?r) - ub (y_interval ?s) \<le> INT_MAX \<and>
    Interval_min_dist_with (x_interval ?r) (x_interval ?s) +
      Interval_min_dist_with (y_interval ?r) (y_interval ?s) \<le> INT_MAX"
    by (simp add: INT_MAX_def Interval_min_dist_with_def Interval_overlaps_def wrap_def)
  note t = C2_min_dist_without_overflow [OF ra rb rr rs]
  from t no have i0: "Interval_min_dist_with ?a ?b \<noteq> 0" by blast
  from t fits have i1: "0 \<le> Interval_min_dist_with ?a ?b" by blast
  from t rfits have r1: "0 \<le> Rectangle_min_dist_with ?r ?s" by blast
  from t rfits nr have r0: "Rectangle_min_dist_with ?r ?s \<noteq> 0" by blast
  from ra rb rr rs no i0 i1 r1 nr r0 show ?thesis by blast
qed

text \<open>
  C2 for all intervals does not hold: the intervals [INT_MIN, INT_MIN] and [INT_MAX, INT_MAX]
  do not overlap, the subtraction \<open>other.lb_ - ub_\<close> leaves the range of \<open>int\<close>, and the
  distance returned is -1.
\<close>

theorem C2_overflow_counterexample:
  "Interval_in_range \<lparr>lb = - 2147483648, ub = - 2147483648\<rparr> \<and>
   Interval_in_range \<lparr>lb = 2147483647, ub = 2147483647\<rparr> \<and>
   \<not> Interval_overlaps \<lparr>lb = - 2147483648, ub = - 2147483648\<rparr> \<lparr>lb = 2147483647, ub = 2147483647\<rparr> \<and>
   Interval_min_dist_with \<lparr>lb = - 2147483648, ub = - 2147483648\<rparr> \<lparr>lb = 2147483647, ub = 2147483647\<rparr>
     = - 1 \<and>
   Interval_min_dist_with \<lparr>lb = - 2147483648, ub = - 2147483648\<rparr> \<lparr>lb = 2147483647, ub = 2147483647\<rparr>
     < 0"
  by (simp add: Interval_in_range_def in_range_def INT_MIN_def INT_MAX_def Interval_overlaps_def
      Interval_min_dist_with_def wrap_def)

text \<open>
  For rectangles the sum can wrap to zero: both axis distances of the two rectangles below
  wrap to \<open>INT_MIN\<close>, and the rectangles do not overlap.
\<close>

lemma Rectangle_min_dist_with_overflow:
  "Rectangle_in_range \<lparr>x_interval = \<lparr>lb = - 1, ub = - 1\<rparr>, y_interval = \<lparr>lb = - 1, ub = - 1\<rparr>\<rparr> \<and>
   Rectangle_in_range \<lparr>x_interval = \<lparr>lb = 2147483647, ub = 2147483647\<rparr>,
                       y_interval = \<lparr>lb = 2147483647, ub = 2147483647\<rparr>\<rparr> \<and>
   \<not> Rectangle_overlaps
       \<lparr>x_interval = \<lparr>lb = - 1, ub = - 1\<rparr>, y_interval = \<lparr>lb = - 1, ub = - 1\<rparr>\<rparr>
       \<lparr>x_interval = \<lparr>lb = 2147483647, ub = 2147483647\<rparr>,
        y_interval = \<lparr>lb = 2147483647, ub = 2147483647\<rparr>\<rparr> \<and>
   Rectangle_min_dist_with
       \<lparr>x_interval = \<lparr>lb = - 1, ub = - 1\<rparr>, y_interval = \<lparr>lb = - 1, ub = - 1\<rparr>\<rparr>
       \<lparr>x_interval = \<lparr>lb = 2147483647, ub = 2147483647\<rparr>,
        y_interval = \<lparr>lb = 2147483647, ub = 2147483647\<rparr>\<rparr> = 0"
  by (simp add: Rectangle_in_range_def Interval_in_range_def in_range_def INT_MIN_def INT_MAX_def
      Rectangle_overlaps_def Interval_overlaps_def Rectangle_min_dist_with_def
      Interval_min_dist_with_def wrap_def)

section \<open>Intersection\<close>

text \<open>
  C3. When two intervals overlap, \<open>intersect_with\<close> returns
  [max of the lower bounds, min of the upper bounds]; when they do not, it returns the
  default-constructed interval [1, 0], which \<open>is_invalid\<close> reports. The function is total
  and returns an interval on both paths: there is no error value.
\<close>

theorem C3_intersect_with:
  "(Interval_overlaps a b \<longrightarrow>
      Interval_intersect_with a b = \<lparr>lb = max (lb a) (lb b), ub = min (ub a) (ub b)\<rparr>) \<and>
   (\<not> Interval_overlaps a b \<longrightarrow>
      Interval_intersect_with a b = \<lparr>lb = 1, ub = 0\<rparr> \<and>
      Interval_is_invalid (Interval_intersect_with a b))"
proof (cases "Interval_overlaps a b")
  case True
  then show ?thesis by (simp add: Interval_intersect_with_def)
next
  case False
  then have "Interval_intersect_with a b = Interval_default"
    by (simp add: Interval_intersect_with_def)
  with False show ?thesis
    by (simp add: Interval_default_def Interval_is_invalid_def)
qed

theorem C3_intersect_with_witness:
  "Interval_overlaps \<lparr>lb = 1, ub = 5\<rparr> \<lparr>lb = 3, ub = 7\<rparr> \<and>
   Interval_intersect_with \<lparr>lb = 1, ub = 5\<rparr> \<lparr>lb = 3, ub = 7\<rparr> = \<lparr>lb = 3, ub = 5\<rparr> \<and>
   \<not> Interval_overlaps \<lparr>lb = 1, ub = 5\<rparr> \<lparr>lb = 10, ub = 15\<rparr> \<and>
   Interval_intersect_with \<lparr>lb = 1, ub = 5\<rparr> \<lparr>lb = 10, ub = 15\<rparr> = \<lparr>lb = 1, ub = 0\<rparr> \<and>
   Interval_is_invalid (Interval_intersect_with \<lparr>lb = 1, ub = 5\<rparr> \<lparr>lb = 10, ub = 15\<rparr>)"
proof -
  have o1: "Interval_overlaps \<lparr>lb = 1, ub = 5\<rparr> \<lparr>lb = 3, ub = 7\<rparr>"
    by (simp add: Interval_overlaps_def)
  have o2: "\<not> Interval_overlaps \<lparr>lb = 1, ub = 5\<rparr> \<lparr>lb = 10, ub = 15\<rparr>"
    by (simp add: Interval_overlaps_def)
  from o1 C3_intersect_with [of "\<lparr>lb = 1, ub = 5\<rparr>" "\<lparr>lb = 3, ub = 7\<rparr>"]
  have i1: "Interval_intersect_with \<lparr>lb = 1, ub = 5\<rparr> \<lparr>lb = 3, ub = 7\<rparr> = \<lparr>lb = 3, ub = 5\<rparr>"
    by simp
  from o2 C3_intersect_with [of "\<lparr>lb = 1, ub = 5\<rparr>" "\<lparr>lb = 10, ub = 15\<rparr>"]
  have i2: "Interval_intersect_with \<lparr>lb = 1, ub = 5\<rparr> \<lparr>lb = 10, ub = 15\<rparr> = \<lparr>lb = 1, ub = 0\<rparr> \<and>
      Interval_is_invalid (Interval_intersect_with \<lparr>lb = 1, ub = 5\<rparr> \<lparr>lb = 10, ub = 15\<rparr>)"
    by blast
  from o1 o2 i1 i2 show ?thesis by blast
qed

section \<open>Segments\<close>

text \<open>
  C4. Flipping a vertical segment gives the horizontal segment whose x-interval is the
  y-interval of the original and whose y is its x; flipping twice gives back the segment,
  for vertical and for horizontal segments, both as values and under \<open>operator==\<close>.
\<close>

theorem C4_flip_inverse_pair:
  "VSegment_flip s = \<lparr>HSegment_x_interval = VSegment_y_interval s, HSegment_y = VSegment_x s\<rparr> \<and>
   HSegment_flip (VSegment_flip s) = s \<and>
   VSegment_eq (HSegment_flip (VSegment_flip s)) s \<and>
   VSegment_flip (HSegment_flip h) = h \<and>
   HSegment_eq (VSegment_flip (HSegment_flip h)) h"
proof -
  have v: "HSegment_flip (VSegment_flip s) = s"
    by (simp add: VSegment_flip_def HSegment_flip_def)
  have h: "VSegment_flip (HSegment_flip h) = h"
    by (simp add: VSegment_flip_def HSegment_flip_def)
  show ?thesis
    by (simp add: v h VSegment_eq_iff HSegment_eq_iff) (simp add: VSegment_flip_def)
qed

section \<open>Hull\<close>

text \<open>
  C5. The hull of two intervals is [min of the lower bounds, max of the upper bounds] and
  contains both of them; the rectangle built from the two intervals that \<open>Point::hull_with\<close>
  returns contains both points.
\<close>

theorem C5_hull_contains_operands:
  "Interval_hull_with a b = \<lparr>lb = min (lb a) (lb b), ub = max (ub a) (ub b)\<rparr> \<and>
   Interval_contains (Interval_hull_with a b) a \<and>
   Interval_contains (Interval_hull_with a b) b \<and>
   Rectangle_contains_point
     \<lparr>x_interval = fst (Point_hull_with p q), y_interval = snd (Point_hull_with p q)\<rparr> p \<and>
   Rectangle_contains_point
     \<lparr>x_interval = fst (Point_hull_with p q), y_interval = snd (Point_hull_with p q)\<rparr> q"
proof -
  have "Interval_contains (Interval_hull_with a b) a"
    and "Interval_contains (Interval_hull_with a b) b"
    by (simp_all add: Interval_hull_with_def Interval_contains_def)
  moreover have
    "Rectangle_contains_point
       \<lparr>x_interval = fst (Point_hull_with p q), y_interval = snd (Point_hull_with p q)\<rparr> p"
    and
    "Rectangle_contains_point
       \<lparr>x_interval = fst (Point_hull_with p q), y_interval = snd (Point_hull_with p q)\<rparr> q"
    by (simp_all add: Point_hull_with_def Rectangle_contains_point_def
        Interval_contains_value_def)
  ultimately show ?thesis
    by (simp add: Interval_hull_with_def)
qed

text \<open>
  C10. When at least one of two intervals is valid, their hull is valid; so the hull with
  a valid interval is valid even when the other operand is the invalid interval [1, 0].
\<close>

theorem C10_hull_valid:
  "Interval_is_valid a \<or> Interval_is_valid b \<Longrightarrow> Interval_is_valid (Interval_hull_with a b)"
proof (erule disjE)
  assume "Interval_is_valid a"
  then have "min (lb a) (lb b) \<le> max (ub a) (ub b)"
    unfolding Interval_is_valid_def by linarith
  then show ?thesis by (simp add: Interval_is_valid_def Interval_hull_with_def)
next
  assume "Interval_is_valid b"
  then have "min (lb a) (lb b) \<le> max (ub a) (ub b)"
    unfolding Interval_is_valid_def by linarith
  then show ?thesis by (simp add: Interval_is_valid_def Interval_hull_with_def)
qed

theorem C10_hull_valid_witness:
  "(Interval_is_valid \<lparr>lb = 3, ub = 7\<rparr> \<or> Interval_is_valid Interval_default) \<and>
   \<not> Interval_is_valid Interval_default \<and>
   Interval_is_valid (Interval_hull_with \<lparr>lb = 3, ub = 7\<rparr> Interval_default) \<and>
   Interval_is_valid (Interval_hull_with Interval_default \<lparr>lb = 3, ub = 7\<rparr>)"
proof -
  have v: "Interval_is_valid \<lparr>lb = 3, ub = 7\<rparr>"
    by (simp add: Interval_is_valid_def)
  have n: "\<not> Interval_is_valid Interval_default"
    by (simp add: Interval_is_valid_def Interval_default_def)
  have h1: "Interval_is_valid (Interval_hull_with \<lparr>lb = 3, ub = 7\<rparr> Interval_default)"
    using v by (intro C10_hull_valid) simp
  have h2: "Interval_is_valid (Interval_hull_with Interval_default \<lparr>lb = 3, ub = 7\<rparr>)"
    using v by (intro C10_hull_valid) simp
  from v n h1 h2 show ?thesis by blast
qed

section \<open>Points\<close>

text \<open>
  C7. Width, height, area and measure of a point are 1, whatever its coordinates.
\<close>

theorem C7_point_unit_measure:
  "Point_width p = 1 \<and> Point_height p = 1 \<and> Point_area p = 1 \<and> Point_measure p = 1"
  by (simp add: Point_width_def Point_height_def Point_area_def Point_measure_def)

section \<open>Nearest point\<close>

text \<open>
  The invariant of the loop: \<open>nearest\<close> is below the counter, \<open>md\<close> is the distance of
  candidate \<open>nearest\<close>, no candidate before the counter is closer than \<open>md\<close>, and every
  candidate before \<open>nearest\<close> is strictly farther.
\<close>

lemma nearest_loop_inv:
  "nearest < i \<Longrightarrow> i \<le> length candidates \<Longrightarrow>
   md = Point_min_dist_with point (candidates ! nearest) \<Longrightarrow>
   (\<forall>j<i. md \<le> Point_min_dist_with point (candidates ! j)) \<Longrightarrow>
   (\<forall>j<nearest. md < Point_min_dist_with point (candidates ! j)) \<Longrightarrow>
   nearest_loop point candidates i md nearest < length candidates \<and>
   (\<forall>j<length candidates.
      Point_min_dist_with point (candidates ! nearest_loop point candidates i md nearest)
        \<le> Point_min_dist_with point (candidates ! j)) \<and>
   (\<forall>j<nearest_loop point candidates i md nearest.
      Point_min_dist_with point (candidates ! nearest_loop point candidates i md nearest)
        < Point_min_dist_with point (candidates ! j))"
proof (induction point candidates i md nearest rule: nearest_loop.induct)
  case (1 point candidates i md nearest)
  show ?case
  proof (cases "i < length candidates")
    case False
    have stop: "nearest_loop point candidates i md nearest = nearest"
      using False by (simp add: nearest_loop.simps [of point candidates i])
    from False "1.prems"(2) have "i = length candidates" by simp
    with "1.prems" show ?thesis
      unfolding stop by simp
  next
    case inrange: True
    let ?dist = "Point_min_dist_with point (candidates ! i)"
    show ?thesis
    proof (cases "?dist < md")
      case True
      have step: "nearest_loop point candidates i md nearest =
                  nearest_loop point candidates (i + 1) ?dist i"
        using inrange True by (simp add: nearest_loop.simps [of point candidates i])
      have a: "\<forall>j<i + 1. ?dist \<le> Point_min_dist_with point (candidates ! j)"
      proof (intro allI impI)
        fix j assume "j < i + 1"
        then consider "j < i" | "j = i" by linarith
        then show "?dist \<le> Point_min_dist_with point (candidates ! j)"
        proof cases
          case 1
          with "1.prems"(4) have "md \<le> Point_min_dist_with point (candidates ! j)" by simp
          with True show ?thesis by linarith
        next
          case 2
          then show ?thesis by simp
        qed
      qed
      have b: "\<forall>j<i. ?dist < Point_min_dist_with point (candidates ! j)"
      proof (intro allI impI)
        fix j assume "j < i"
        with "1.prems"(4) have "md \<le> Point_min_dist_with point (candidates ! j)" by simp
        with True show "?dist < Point_min_dist_with point (candidates ! j)" by linarith
      qed
      have "i < i + 1" and "i + 1 \<le> length candidates" using inrange by simp_all
      from "1.IH"(1) [OF inrange refl True this refl a b] show ?thesis
        unfolding step .
    next
      case False
      have step: "nearest_loop point candidates i md nearest =
                  nearest_loop point candidates (i + 1) md nearest"
        using inrange False by (simp add: nearest_loop.simps [of point candidates i])
      have a: "\<forall>j<i + 1. md \<le> Point_min_dist_with point (candidates ! j)"
      proof (intro allI impI)
        fix j assume "j < i + 1"
        then consider "j < i" | "j = i" by linarith
        then show "md \<le> Point_min_dist_with point (candidates ! j)"
        proof cases
          case 1
          with "1.prems"(4) show ?thesis by simp
        next
          case 2
          with False show ?thesis by simp
        qed
      qed
      have "nearest < i + 1" and "i + 1 \<le> length candidates"
        using inrange "1.prems"(1) by simp_all
      from "1.IH"(2) [OF inrange refl False this "1.prems"(3) a "1.prems"(5)] show ?thesis
        unfolding step .
    qed
  qed
qed

text \<open>
  C6. \<open>nearest_point_to\<close> returns the null pointer exactly when there is no candidate.
  Otherwise it returns a pointer to a candidate at some index \<open>i\<close> such that no candidate is
  closer to the point, and every candidate before \<open>i\<close> is strictly farther: of the
  candidates at minimal distance it is the first in the order of the list.
\<close>

theorem C6_nearest_point_to:
  "(nearest_point_to point candidates = None \<longleftrightarrow> candidates = []) \<and>
   (candidates \<noteq> [] \<longrightarrow>
      (\<exists>i. nearest_point_to point candidates = Some i \<and> i < length candidates \<and>
           deref candidates (nearest_point_to point candidates) = Some (candidates ! i) \<and>
           candidates ! i \<in> set candidates \<and>
           (\<forall>j<length candidates.
              Point_min_dist_with point (candidates ! i)
                \<le> Point_min_dist_with point (candidates ! j)) \<and>
           (\<forall>j<i.
              Point_min_dist_with point (candidates ! i)
                < Point_min_dist_with point (candidates ! j))))"
proof (cases "candidates = []")
  case True
  then show ?thesis by (simp add: nearest_point_to_def)
next
  case False
  define r where "r = nearest_loop point candidates 1 (Point_min_dist_with point (candidates ! 0)) 0"
  have len: "1 \<le> length candidates" using False by (cases candidates) simp_all
  have inv: "r < length candidates \<and>
     (\<forall>j<length candidates.
        Point_min_dist_with point (candidates ! r) \<le> Point_min_dist_with point (candidates ! j)) \<and>
     (\<forall>j<r. Point_min_dist_with point (candidates ! r) < Point_min_dist_with point (candidates ! j))"
    unfolding r_def
  proof (rule nearest_loop_inv)
    show "(0::nat) < 1" by simp
    show "1 \<le> length candidates" by (rule len)
    show "Point_min_dist_with point (candidates ! 0) = Point_min_dist_with point (candidates ! 0)"
      by (rule refl)
    show "\<forall>j<1. Point_min_dist_with point (candidates ! 0) \<le> Point_min_dist_with point (candidates ! j)"
      by simp
    show "\<forall>j<0. Point_min_dist_with point (candidates ! 0) < Point_min_dist_with point (candidates ! j)"
      by simp
  qed
  have res: "nearest_point_to point candidates = Some r"
    using False by (simp add: nearest_point_to_def r_def)
  have d: "deref candidates (nearest_point_to point candidates) = Some (candidates ! r)"
    by (simp add: res deref_def)
  have m: "candidates ! r \<in> set candidates"
    using inv by simp
  have "\<exists>i. nearest_point_to point candidates = Some i \<and> i < length candidates \<and>
           deref candidates (nearest_point_to point candidates) = Some (candidates ! i) \<and>
           candidates ! i \<in> set candidates \<and>
           (\<forall>j<length candidates.
              Point_min_dist_with point (candidates ! i)
                \<le> Point_min_dist_with point (candidates ! j)) \<and>
           (\<forall>j<i.
              Point_min_dist_with point (candidates ! i)
                < Point_min_dist_with point (candidates ! j))"
    by (rule exI [of _ r]) (intro conjI res d m inv [THEN conjunct1]
          inv [THEN conjunct2, THEN conjunct1] inv [THEN conjunct2, THEN conjunct2])
  with False res show ?thesis by simp
qed

text \<open>
  The theorem at the candidates of the test, and at a list in which the minimal distance 1
  is attained at indices 1 and 2: the first of them is returned.
\<close>

theorem C6_nearest_point_to_witness:
  "nearest_point_to \<lparr>Point_x = 3, Point_y = 4\<rparr> [] = None \<and>
   [\<lparr>Point_x = 2, Point_y = 0\<rparr>, \<lparr>Point_x = 0, Point_y = 1\<rparr>, \<lparr>Point_x = 1, Point_y = 0\<rparr>] \<noteq> [] \<and>
   (\<exists>i. nearest_point_to \<lparr>Point_x = 0, Point_y = 0\<rparr>
          [\<lparr>Point_x = 2, Point_y = 0\<rparr>, \<lparr>Point_x = 0, Point_y = 1\<rparr>, \<lparr>Point_x = 1, Point_y = 0\<rparr>]
          = Some i \<and> i = 1 \<and>
        deref [\<lparr>Point_x = 2, Point_y = 0\<rparr>, \<lparr>Point_x = 0, Point_y = 1\<rparr>, \<lparr>Point_x = 1, Point_y = 0\<rparr>]
          (Some i) = Some \<lparr>Point_x = 0, Point_y = 1\<rparr> \<and>
        (\<forall>j<3. Point_min_dist_with \<lparr>Point_x = 0, Point_y = 0\<rparr>
                 ([\<lparr>Point_x = 2, Point_y = 0\<rparr>, \<lparr>Point_x = 0, Point_y = 1\<rparr>,
                   \<lparr>Point_x = 1, Point_y = 0\<rparr>] ! i)
               \<le> Point_min_dist_with \<lparr>Point_x = 0, Point_y = 0\<rparr>
                 ([\<lparr>Point_x = 2, Point_y = 0\<rparr>, \<lparr>Point_x = 0, Point_y = 1\<rparr>,
                   \<lparr>Point_x = 1, Point_y = 0\<rparr>] ! j)))"
proof -
  let ?p = "\<lparr>Point_x = 0, Point_y = 0\<rparr>"
  let ?cs = "[\<lparr>Point_x = 2, Point_y = 0\<rparr>, \<lparr>Point_x = 0, Point_y = 1\<rparr>, \<lparr>Point_x = 1, Point_y = 0\<rparr>]"
  have e: "nearest_point_to \<lparr>Point_x = 3, Point_y = 4\<rparr> [] = None"
    using C6_nearest_point_to [of "\<lparr>Point_x = 3, Point_y = 4\<rparr>" "[]"] by simp
  have ne: "?cs \<noteq> []" by simp
  from C6_nearest_point_to [of ?p ?cs] ne
  obtain i where i: "nearest_point_to ?p ?cs = Some i"
    and le: "\<forall>j<length ?cs. Point_min_dist_with ?p (?cs ! i) \<le> Point_min_dist_with ?p (?cs ! j)"
    by blast
  have v: "nearest_point_to ?p ?cs = Some 1"
    by (simp add: nearest_point_to_def nearest_loop.simps Point_min_dist_with_def wrap_def)
  with i have i1: "i = 1" by simp
  have dr: "deref ?cs (Some i) = Some \<lparr>Point_x = 0, Point_y = 1\<rparr>"
    by (simp add: i1 deref_def)
  from le have le3: "\<forall>j<3. Point_min_dist_with ?p (?cs ! i) \<le> Point_min_dist_with ?p (?cs ! j)"
    by simp
  from e ne i i1 dr le3 show ?thesis by blast
qed

section \<open>Enlargement\<close>

text \<open>
  C9, where the arithmetic stays in range. \<open>Interval::enlarge\<close> returns
  [lb - amount, ub + amount] in the arithmetic of \<open>int\<close>, for every interval and every amount;
  these are the integers lb - amount and ub + amount when both are in range. When moreover
  the width ub - lb is in range, a negative amount whose magnitude exceeds half the width
  (twice the magnitude exceeds the width; or the magnitude exceeds the width halved by C++
  integer division) gives an invalid interval, returned as an ordinary value.
  \<open>Point::enlarge\<close> returns the pair ([x - amount, x + amount], [y - amount, y + amount]) in
  the arithmetic of \<open>int\<close>, the integers themselves when they are in range.
\<close>

theorem C9_enlarge_without_overflow:
  "Interval_enlarge a amount = \<lparr>lb = wrap (lb a - amount), ub = wrap (ub a + amount)\<rparr> \<and>
   (in_range (lb a - amount) \<and> in_range (ub a + amount) \<longrightarrow>
      Interval_enlarge a amount = \<lparr>lb = lb a - amount, ub = ub a + amount\<rparr>) \<and>
   (in_range (lb a - amount) \<and> in_range (ub a + amount) \<and> in_range (ub a - lb a) \<and>
    amount < 0 \<and> Interval_width a < 2 * \<bar>amount\<bar> \<longrightarrow>
      Interval_is_invalid (Interval_enlarge a amount)) \<and>
   (in_range (lb a - amount) \<and> in_range (ub a + amount) \<and> in_range (ub a - lb a) \<and>
    amount < 0 \<and> Interval_width a sdiv 2 < \<bar>amount\<bar> \<longrightarrow>
      Interval_is_invalid (Interval_enlarge a amount)) \<and>
   Point_enlarge p amount =
     (\<lparr>lb = wrap (Point_x p - amount), ub = wrap (Point_x p + amount)\<rparr>,
      \<lparr>lb = wrap (Point_y p - amount), ub = wrap (Point_y p + amount)\<rparr>) \<and>
   (in_range (Point_x p - amount) \<and> in_range (Point_x p + amount) \<and>
    in_range (Point_y p - amount) \<and> in_range (Point_y p + amount) \<longrightarrow>
      Point_enlarge p amount =
        (\<lparr>lb = Point_x p - amount, ub = Point_x p + amount\<rparr>,
         \<lparr>lb = Point_y p - amount, ub = Point_y p + amount\<rparr>))"
proof -
  have c1: "Interval_enlarge a amount = \<lparr>lb = wrap (lb a - amount), ub = wrap (ub a + amount)\<rparr>"
    by (simp add: Interval_enlarge_def)
  have exact: "Interval_enlarge a amount = \<lparr>lb = lb a - amount, ub = ub a + amount\<rparr>"
    if "in_range (lb a - amount)" and "in_range (ub a + amount)"
    using that by (simp add: Interval_enlarge_def wrap_id)
  have invalid: "Interval_is_invalid (Interval_enlarge a amount)"
    if "in_range (lb a - amount)" and "in_range (ub a + amount)" and "in_range (ub a - lb a)"
      and "amount < 0" and "Interval_width a < 2 * \<bar>amount\<bar>"
  proof -
    have "Interval_width a = ub a - lb a"
      using that(3) by (simp add: Interval_width_def wrap_id)
    with that(4,5) have "ub a + amount < lb a - amount" by linarith
    then show ?thesis
      by (simp add: exact [OF that(1,2)] Interval_is_invalid_def)
  qed
  have half: "Interval_width a < 2 * \<bar>amount\<bar>"
    if "amount < 0" and "Interval_width a sdiv 2 < \<bar>amount\<bar>"
  proof (cases "0 \<le> Interval_width a")
    case True
    then have "Interval_width a sdiv 2 = Interval_width a div 2"
      by (simp add: signed_divide_int_def sgn_if)
    with that show ?thesis by linarith
  next
    case False
    with that show ?thesis by linarith
  qed
  have c2: "in_range (lb a - amount) \<and> in_range (ub a + amount) \<longrightarrow>
      Interval_enlarge a amount = \<lparr>lb = lb a - amount, ub = ub a + amount\<rparr>"
    using exact by blast
  have c3: "in_range (lb a - amount) \<and> in_range (ub a + amount) \<and> in_range (ub a - lb a) \<and>
      amount < 0 \<and> Interval_width a < 2 * \<bar>amount\<bar> \<longrightarrow>
      Interval_is_invalid (Interval_enlarge a amount)"
    using invalid by blast
  have c4: "in_range (lb a - amount) \<and> in_range (ub a + amount) \<and> in_range (ub a - lb a) \<and>
      amount < 0 \<and> Interval_width a sdiv 2 < \<bar>amount\<bar> \<longrightarrow>
      Interval_is_invalid (Interval_enlarge a amount)"
    using invalid half by blast
  have c5: "Point_enlarge p amount =
     (\<lparr>lb = wrap (Point_x p - amount), ub = wrap (Point_x p + amount)\<rparr>,
      \<lparr>lb = wrap (Point_y p - amount), ub = wrap (Point_y p + amount)\<rparr>)"
    by (simp add: Point_enlarge_def)
  have c6: "in_range (Point_x p - amount) \<and> in_range (Point_x p + amount) \<and>
    in_range (Point_y p - amount) \<and> in_range (Point_y p + amount) \<longrightarrow>
      Point_enlarge p amount =
        (\<lparr>lb = Point_x p - amount, ub = Point_x p + amount\<rparr>,
         \<lparr>lb = Point_y p - amount, ub = Point_y p + amount\<rparr>)"
    by (simp add: Point_enlarge_def wrap_id)
  from c1 c2 c3 c4 c5 c6 show ?thesis by (intro conjI)
qed

theorem C9_enlarge_without_overflow_witness:
  "in_range (lb \<lparr>lb = 3, ub = 7\<rparr> - (- 3)) \<and> in_range (ub \<lparr>lb = 3, ub = 7\<rparr> + (- 3)) \<and>
   in_range (ub \<lparr>lb = 3, ub = 7\<rparr> - lb \<lparr>lb = 3, ub = 7\<rparr>) \<and>
   (- 3 :: int) < 0 \<and> Interval_width \<lparr>lb = 3, ub = 7\<rparr> < 2 * \<bar>- 3\<bar> \<and>
   Interval_width \<lparr>lb = 3, ub = 7\<rparr> sdiv 2 < \<bar>- 3\<bar> \<and>
   Interval_enlarge \<lparr>lb = 3, ub = 7\<rparr> (- 3) = \<lparr>lb = 6, ub = 4\<rparr> \<and>
   Interval_is_invalid (Interval_enlarge \<lparr>lb = 3, ub = 7\<rparr> (- 3)) \<and>
   Interval_enlarge \<lparr>lb = 3, ub = 7\<rparr> 2 = \<lparr>lb = 1, ub = 9\<rparr> \<and>
   Point_enlarge \<lparr>Point_x = 3, Point_y = 4\<rparr> 2 = (\<lparr>lb = 1, ub = 5\<rparr>, \<lparr>lb = 2, ub = 6\<rparr>)"
proof -
  let ?a = "\<lparr>lb = 3, ub = 7\<rparr>" and ?p = "\<lparr>Point_x = 3, Point_y = 4\<rparr>"
  have w: "Interval_width ?a = 4"
    by (simp add: Interval_width_def wrap_def)
  have r1: "in_range (lb ?a - (- 3)) \<and> in_range (ub ?a + (- 3))"
    by (simp add: in_range_def INT_MIN_def INT_MAX_def)
  have r2: "in_range (ub ?a - lb ?a)"
    by (simp add: in_range_def INT_MIN_def INT_MAX_def)
  have h1: "(- 3 :: int) < 0 \<and> Interval_width ?a < 2 * \<bar>- 3\<bar>"
    by (simp add: w)
  have h2: "Interval_width ?a sdiv 2 < \<bar>- 3\<bar>"
    by (simp add: w signed_divide_int_def)
  have r3: "in_range (lb ?a - 2) \<and> in_range (ub ?a + 2)"
    by (simp add: in_range_def INT_MIN_def INT_MAX_def)
  have r4: "in_range (Point_x ?p - 2) \<and> in_range (Point_x ?p + 2) \<and>
            in_range (Point_y ?p - 2) \<and> in_range (Point_y ?p + 2)"
    by (simp add: in_range_def INT_MIN_def INT_MAX_def)
  note t = C9_enlarge_without_overflow [of ?a "- 3" ?p]
  note u = C9_enlarge_without_overflow [of ?a 2 ?p]
  from t r1 have "Interval_enlarge ?a (- 3) = \<lparr>lb = lb ?a - (- 3), ub = ub ?a + (- 3)\<rparr>"
    by blast
  then have e: "Interval_enlarge ?a (- 3) = \<lparr>lb = 6, ub = 4\<rparr>" by simp
  from t r1 r2 h1 have i: "Interval_is_invalid (Interval_enlarge ?a (- 3))" by blast
  from u r3 have "Interval_enlarge ?a 2 = \<lparr>lb = lb ?a - 2, ub = ub ?a + 2\<rparr>" by blast
  then have e2: "Interval_enlarge ?a 2 = \<lparr>lb = 1, ub = 9\<rparr>" by simp
  from u r4 have "Point_enlarge ?p 2 =
        (\<lparr>lb = Point_x ?p - 2, ub = Point_x ?p + 2\<rparr>, \<lparr>lb = Point_y ?p - 2, ub = Point_y ?p + 2\<rparr>)"
    by blast
  then have pe: "Point_enlarge ?p 2 = (\<lparr>lb = 1, ub = 5\<rparr>, \<lparr>lb = 2, ub = 6\<rparr>)" by simp
  from r1 r2 h1 h2 e i e2 pe show ?thesis by blast
qed

text \<open>
  C9 for every interval and amount does not hold: for [2147483646, 2147483647], of width 1,
  and the amount -2, \<open>lb_ - amount\<close> leaves the range of \<open>int\<close>; the lower bound returned is
  \<open>INT_MIN\<close> and not 2147483648, and the interval returned is valid.
\<close>

theorem C9_overflow_counterexample:
  "Interval_in_range \<lparr>lb = 2147483646, ub = 2147483647\<rparr> \<and> in_range (- 2) \<and>
   (- 2 :: int) < 0 \<and>
   Interval_width \<lparr>lb = 2147483646, ub = 2147483647\<rparr> = 1 \<and>
   Interval_width \<lparr>lb = 2147483646, ub = 2147483647\<rparr> < 2 * \<bar>- 2\<bar> \<and>
   Interval_enlarge \<lparr>lb = 2147483646, ub = 2147483647\<rparr> (- 2)
     = \<lparr>lb = - 2147483648, ub = 2147483645\<rparr> \<and>
   lb (Interval_enlarge \<lparr>lb = 2147483646, ub = 2147483647\<rparr> (- 2)) \<noteq> 2147483646 - (- 2) \<and>
   \<not> Interval_is_invalid (Interval_enlarge \<lparr>lb = 2147483646, ub = 2147483647\<rparr> (- 2))"
  by (simp add: Interval_in_range_def in_range_def INT_MIN_def INT_MAX_def Interval_width_def
      Interval_enlarge_def Interval_is_invalid_def wrap_def)

section \<open>Translation of points\<close>

text \<open>
  C8, for the operand type the operators declare. A point is translated by a displacement
  that is itself passed as a point: \<open>p + d\<close> is (p.x + d.x, p.y + d.y) and \<open>p - d\<close> is
  (p.x - d.x, p.y - d.y), by the member template as well as by the member that subtracts a
  point from a point. The sums and differences are those of \<open>int\<close>; they are the integers
  themselves when these are in range. A \<open>Vector2\<close> operand matches no overload of either
  operator.
\<close>

theorem C8_point_translation:
  "Point_operator_plus p (OPoint d) =
     Some \<lparr>Point_x = wrap (Point_x p + Point_x d), Point_y = wrap (Point_y p + Point_y d)\<rparr> \<and>
   Point_operator_minus p (OPoint d) =
     Some \<lparr>Point_x = wrap (Point_x p - Point_x d), Point_y = wrap (Point_y p - Point_y d)\<rparr> \<and>
   Point_minus_vec p d =
     \<lparr>Point_x = wrap (Point_x p - Point_x d), Point_y = wrap (Point_y p - Point_y d)\<rparr> \<and>
   (in_range (Point_x p + Point_x d) \<and> in_range (Point_y p + Point_y d) \<longrightarrow>
      Point_operator_plus p (OPoint d) =
        Some \<lparr>Point_x = Point_x p + Point_x d, Point_y = Point_y p + Point_y d\<rparr>) \<and>
   (in_range (Point_x p - Point_x d) \<and> in_range (Point_y p - Point_y d) \<longrightarrow>
      Point_operator_minus p (OPoint d) =
        Some \<lparr>Point_x = Point_x p - Point_x d, Point_y = Point_y p - Point_y d\<rparr> \<and>
      Point_minus_vec p d = \<lparr>Point_x = Point_x p - Point_x d, Point_y = Point_y p - Point_y d\<rparr>) \<and>
   Point_operator_plus p (OVector2 v) = None \<and>
   Point_operator_minus p (OVector2 v) = None"
  by (simp add: Point_plus_def Point_minus_def Point_minus_vec_def wrap_id)

theorem C8_point_translation_witness:
  "in_range (Point_x \<lparr>Point_x = 1, Point_y = 2\<rparr> + Point_x \<lparr>Point_x = 3, Point_y = 4\<rparr>) \<and>
   in_range (Point_y \<lparr>Point_x = 1, Point_y = 2\<rparr> + Point_y \<lparr>Point_x = 3, Point_y = 4\<rparr>) \<and>
   in_range (Point_x \<lparr>Point_x = 1, Point_y = 2\<rparr> - Point_x \<lparr>Point_x = 3, Point_y = 4\<rparr>) \<and>
   in_range (Point_y \<lparr>Point_x = 1, Point_y = 2\<rparr> - Point_y \<lparr>Point_x = 3, Point_y = 4\<rparr>) \<and>
   Point_operator_plus \<lparr>Point_x = 1, Point_y = 2\<rparr> (OPoint \<lparr>Point_x = 3, Point_y = 4\<rparr>)
     = Some \<lparr>Point_x = 4, Point_y = 6\<rparr> \<and>
   Point_operator_minus \<lparr>Point_x = 1, Point_y = 2\<rparr> (OPoint \<lparr>Point_x = 3, Point_y = 4\<rparr>)
     = Some \<lparr>Point_x = - 2, Point_y = - 2\<rparr>"
proof -
  let ?p = "\<lparr>Point_x = 1, Point_y = 2\<rparr>" and ?d = "\<lparr>Point_x = 3, Point_y = 4\<rparr>"
  have rp: "in_range (Point_x ?p + Point_x ?d) \<and> in_range (Point_y ?p + Point_y ?d)"
    by (simp add: in_range_def INT_MIN_def INT_MAX_def)
  have rm: "in_range (Point_x ?p - Point_x ?d) \<and> in_range (Point_y ?p - Point_y ?d)"
    by (simp add: in_range_def INT_MIN_def INT_MAX_def)
  note t = C8_point_translation [of ?p ?d]
  from t rp have "Point_operator_plus ?p (OPoint ?d) =
      Some \<lparr>Point_x = Point_x ?p + Point_x ?d, Point_y = Point_y ?p + Point_y ?d\<rparr>"
    by blast
  then have a: "Point_operator_plus ?p (OPoint ?d) = Some \<lparr>Point_x = 4, Point_y = 6\<rparr>"
    by simp
  from t rm have "Point_operator_minus ?p (OPoint ?d) =
      Some \<lparr>Point_x = Point_x ?p - Point_x ?d, Point_y = Point_y ?p - Point_y ?d\<rparr>"
    by blast
  then have b: "Point_operator_minus ?p (OPoint ?d) = Some \<lparr>Point_x = - 2, Point_y = - 2\<rparr>"
    by simp
  from rp rm a b show ?thesis by blast
qed

text \<open>
  C8 with a \<open>Vector2\<close> operand does not hold: for the point (1, 2) and the \<open>Vector2\<close>
  <3, 4>, neither \<open>p + v\<close> nor \<open>p - v\<close> is a call of any operator of \<open>Point\<close>, so neither
  yields the translated point.
\<close>

theorem C8_vector2_counterexample:
  "Point_operator_plus \<lparr>Point_x = 1, Point_y = 2\<rparr> (OVector2 \<lparr>Vector2_x = 3, Vector2_y = 4\<rparr>)
     \<noteq> Some \<lparr>Point_x = 1 + 3, Point_y = 2 + 4\<rparr> \<and>
   Point_operator_minus \<lparr>Point_x = 1, Point_y = 2\<rparr> (OVector2 \<lparr>Vector2_x = 3, Vector2_y = 4\<rparr>)
     \<noteq> Some \<lparr>Point_x = 1 - 3, Point_y = 2 - 4\<rparr>"
  by simp

section \<open>Generic algebra\<close>

text \<open>
  C1. Each free function of the generic layer is the call of the member of the same role
  on its first argument: \<open>overlap\<close> is \<open>overlaps\<close>, \<open>contain\<close> is \<open>contains\<close>, \<open>min_dist\<close> is
  \<open>min_dist_with\<close>, \<open>center\<close> is \<open>get_center\<close>, \<open>measure_of\<close> is \<open>measure\<close>, \<open>lower\<close> and
  \<open>upper\<close> are \<open>lower_corner\<close> and \<open>upper_corner\<close>, for operands of every type. Spelled out
  per class: on intervals, points and rectangles all seven functions return what the member
  of the class returns; on segments \<open>overlap\<close> and \<open>contain\<close> do, and the other five have no
  member to call, for the free function as for the member call.
\<close>

theorem C1_generic_delegation:
  "overlap a b = overlaps a b \<and>
   contain a b = contains a b \<and>
   min_dist a b = min_dist_with a b \<and>
   center a = get_center a \<and>
   measure_of a = measure_member a \<and>
   lower a = lower_corner a \<and>
   upper a = upper_corner a \<and>
   overlap (OInterval i) (OInterval j) = Some (Interval_overlaps i j) \<and>
   contain (OInterval i) (OInterval j) = Some (Interval_contains i j) \<and>
   contain (OInterval i) (Scalar v) = Some (Interval_contains_value i v) \<and>
   min_dist (OInterval i) (OInterval j) = Some (Interval_min_dist_with i j) \<and>
   center (OInterval i) = Some (Scalar (Interval_get_center i)) \<and>
   measure_of (OInterval i) = Some (Interval_measure i) \<and>
   lower (OInterval i) = Some (Scalar (Interval_lower_corner i)) \<and>
   upper (OInterval i) = Some (Scalar (Interval_upper_corner i)) \<and>
   overlap (OPoint p) (OPoint q) = Some (Point_overlaps p q) \<and>
   contain (OPoint p) (OPoint q) = Some (Point_contains p q) \<and>
   min_dist (OPoint p) (OPoint q) = Some (Point_min_dist_with p q) \<and>
   center (OPoint p) = Some (OPoint (Point_get_center p)) \<and>
   measure_of (OPoint p) = Some (Point_measure p) \<and>
   lower (OPoint p) = Some (OPoint (Point_lower_corner p)) \<and>
   upper (OPoint p) = Some (OPoint (Point_upper_corner p)) \<and>
   overlap (ORectangle r) (ORectangle s) = Some (Rectangle_overlaps r s) \<and>
   contain (ORectangle r) (ORectangle s) = Some (Rectangle_contains r s) \<and>
   contain (ORectangle r) (OPoint p) = Some (Rectangle_contains_point r p) \<and>
   min_dist (ORectangle r) (ORectangle s) = Some (Rectangle_min_dist_with r s) \<and>
   min_dist (ORectangle r) (OPoint p) = Some (Rectangle_min_dist_with_point r p) \<and>
   center (ORectangle r) = Some (OPoint (Rectangle_get_center r)) \<and>
   measure_of (ORectangle r) = Some (Rectangle_measure r) \<and>
   lower (ORectangle r) = Some (OPoint (Rectangle_lower_corner r)) \<and>
   upper (ORectangle r) = Some (OPoint (Rectangle_upper_corner r)) \<and>
   overlap (OVSegment vs) (OVSegment vt) = Some (VSegment_overlaps vs vt) \<and>
   contain (OVSegment vs) (OVSegment vt) = Some (VSegment_contains vs vt) \<and>
   contain (OVSegment vs) (OPoint p) = Some (VSegment_contains_point vs p) \<and>
   overlap (OHSegment hs) (OHSegment ht) = Some (HSegment_overlaps hs ht) \<and>
   contain (OHSegment hs) (OHSegment ht) = Some (HSegment_contains hs ht) \<and>
   contain (OHSegment hs) (OPoint p) = Some (HSegment_contains_point hs p) \<and>
   min_dist (OVSegment vs) b = None \<and> min_dist (OHSegment hs) b = None \<and>
   center (OVSegment vs) = None \<and> center (OHSegment hs) = None \<and>
   measure_of (OVSegment vs) = None \<and> measure_of (OHSegment hs) = None \<and>
   lower (OVSegment vs) = None \<and> lower (OHSegment hs) = None \<and>
   upper (OVSegment vs) = None \<and> upper (OHSegment hs) = None"
proof -
  have two: "overlap a b = overlaps a b" "contain a b = contains a b"
    "min_dist a b = min_dist_with a b" for a b
    by (simp_all add: overlap_def contain_def min_dist_def)
  have one: "center a = get_center a" "measure_of a = measure_member a"
    "lower a = lower_corner a" "upper a = upper_corner a" for a
    by (simp_all add: center_def measure_of_def lower_def upper_def)
  show ?thesis
    unfolding two one by simp
qed

text \<open>The checks of the test case "Generic functions".\<close>

lemma generic_functions_test:
  "overlap (OInterval \<lparr>lb = 1, ub = 5\<rparr>) (OInterval \<lparr>lb = 3, ub = 7\<rparr>) = Some True \<and>
   contain (OInterval \<lparr>lb = 1, ub = 5\<rparr>) (OInterval \<lparr>lb = 3, ub = 7\<rparr>) = Some False \<and>
   min_dist (OInterval \<lparr>lb = 1, ub = 5\<rparr>) (OInterval \<lparr>lb = 3, ub = 7\<rparr>) = Some 0 \<and>
   min_dist (OInterval \<lparr>lb = 1, ub = 5\<rparr>) (OInterval \<lparr>lb = 10, ub = 15\<rparr>) = Some 5 \<and>
   measure_of (OInterval \<lparr>lb = 1, ub = 5\<rparr>) = Some 4 \<and>
   center (OInterval \<lparr>lb = 1, ub = 5\<rparr>) = Some (Scalar 3) \<and>
   lower (OInterval \<lparr>lb = 1, ub = 5\<rparr>) = Some (Scalar 1) \<and>
   upper (OInterval \<lparr>lb = 1, ub = 5\<rparr>) = Some (Scalar 5)"
  by (simp add: overlap_def contain_def min_dist_def center_def measure_of_def lower_def upper_def
      Interval_overlaps_def Interval_contains_def Interval_min_dist_with_def Interval_measure_def
      Interval_width_def Interval_get_center_def Interval_lower_corner_def Interval_upper_corner_def
      signed_divide_int_def wrap_def)

end
